theory Spec2Isabelle
  imports Main
begin

section \<open>JavaScript values\<close>

text \<open>
  The values the handler of \<^verbatim>\<open>GET /check/:phone\<close> moves around: what the contact object
  exposes, what is stored in the cache and what is sent as a JSON body. An object is the
  list of its properties in insertion order.
\<close>

datatype jsval =
    JUndefined
  | JNull
  | JBool bool
  | JNum int
  | JStr string
  | JObj "(string \<times> jsval) list"

text \<open>JavaScript truthiness, as \<^verbatim>\<open>if (cachedData)\<close> and \<^verbatim>\<open>x || null\<close> read it.\<close>

fun truthy :: "jsval \<Rightarrow> bool" where
  "truthy JUndefined = False"
| "truthy JNull = False"
| "truthy (JBool b) = b"
| "truthy (JNum n) = (n \<noteq> 0)"
| "truthy (JStr s) = (s \<noteq> [])"
| "truthy (JObj fs) = True"

text \<open>The operator \<^verbatim>\<open>a || b\<close>.\<close>

definition js_or :: "jsval \<Rightarrow> jsval \<Rightarrow> jsval" where
  "js_or a b = (if truthy a then a else b)"

text \<open>The assignment \<^verbatim>\<open>obj.k = v\<close>: an existing property keeps its place, a new one is appended.\<close>

fun set_prop :: "(string \<times> jsval) list \<Rightarrow> string \<Rightarrow> jsval \<Rightarrow> (string \<times> jsval) list" where
  "set_prop [] k v = [(k, v)]"
| "set_prop ((k', v') # fs) k v =
     (if k' = k then (k, v) # fs else (k', v') # set_prop fs k v)"

text \<open>Reading a property: \<^verbatim>\<open>undefined\<close> when it is missing or the value is no object.\<close>

fun get_prop :: "jsval \<Rightarrow> string \<Rightarrow> jsval" where
  "get_prop (JObj fs) k = (case map_of fs k of None \<Rightarrow> JUndefined | Some v \<Rightarrow> v)"
| "get_prop _ k = JUndefined"

section \<open>The session client\<close>

text \<open>
  An awaited call of the client either resolves to a value or rejects with an error. The
  handler's \<^verbatim>\<open>catch (error)\<close> takes every error alike; \<open>NotReadyError\<close> stands for the error
  of a call made on a session that is not ready, \<open>OtherError\<close> for any other, with its
  message.
\<close>

datatype js_error = NotReadyError | OtherError string

datatype 'a outcome = Resolved 'a | Rejected js_error

text \<open>
  Modelled from the spec: the client is an object of the whatsapp-web.js package, which is
  not part of the sources. Its \<^verbatim>\<open>isRegisteredUser(id)\<close> resolves to a boolean and its
  \<^verbatim>\<open>getContactById(id)\<close> to an object exposing \<^verbatim>\<open>pushname\<close>, \<^verbatim>\<open>number\<close>, \<^verbatim>\<open>isBusiness\<close> and an
  asynchronous \<^verbatim>\<open>getProfilePicUrl()\<close>. What the three awaited calls settle to is an input
  of the model.
\<close>

record contact =
  pushname :: jsval
  number :: jsval
  isBusiness :: jsval

record whatsapp =
  isRegisteredUser :: "string \<Rightarrow> bool outcome"
  getContactById :: "string \<Rightarrow> contact outcome"
  getProfilePicUrl :: "contact \<Rightarrow> jsval outcome"

text \<open>The calls made on the session client, in the order they are issued.\<close>

datatype upcall = IsRegisteredUser string | GetContactById string | GetProfilePicUrl string

section \<open>Configuration and cache\<close>

text \<open>
  \<^verbatim>\<open>parseInt(process.env.CACHE_TTL_SECONDS, 10) || 600\<close>: \<open>None\<close> is \<^verbatim>\<open>NaN\<close> (variable unset or
  not a number); \<^verbatim>\<open>0\<close> is falsy as well.
\<close>

definition config_ttl :: "int option \<Rightarrow> int" where
  "config_ttl parsed = (case parsed of None \<Rightarrow> 600 | Some n \<Rightarrow> if n = 0 then 600 else n)"

text \<open>
  Modelled from the spec: the key/value store \<^verbatim>\<open>phoneNumberCache\<close> is an instance of the
  node-cache package, which is not part of the sources. An entry holds the stored value and
  the time of its insertion; \<^verbatim>\<open>get\<close> returns the stored value only if
  \<open>now - insertedAt < ttl\<close> and \<^verbatim>\<open>undefined\<close> otherwise; \<^verbatim>\<open>set\<close> stores the value and resets
  the insertion time; \<^verbatim>\<open>flushAll\<close> clears all entries. Times are in the unit of the TTL.
\<close>

type_synonym cache = "string \<rightharpoonup> (jsval \<times> int)"

definition cache_get :: "int \<Rightarrow> cache \<Rightarrow> int \<Rightarrow> string \<Rightarrow> jsval" where
  "cache_get ttl c now k =
     (case c k of
        None \<Rightarrow> JUndefined
      | Some (v, insertedAt) \<Rightarrow> if now - insertedAt < ttl then v else JUndefined)"

definition cache_set :: "cache \<Rightarrow> int \<Rightarrow> string \<Rightarrow> jsval \<Rightarrow> cache" where
  "cache_set c now k v = c(k \<mapsto> (v, now))"

definition flushAll :: "cache \<Rightarrow> cache" where
  "flushAll c = Map.empty"

section \<open>The handler of GET /check/:phone\<close>

text \<open>A reply: the status code, the headers the source sets, and the JSON body.\<close>

record reply =
  status :: nat
  headers :: "(string \<times> string) list"
  body :: jsval

text \<open>\<^verbatim>\<open>`whatsapp_user_${phone}`\<close> and \<^verbatim>\<open>`${phone}@c.us`\<close>.\<close>

definition cacheKey :: "string \<Rightarrow> string" where
  "cacheKey phone = ''whatsapp_user_'' @ phone"

definition phoneNumberId :: "string \<Rightarrow> string" where
  "phoneNumberId phone = phone @ ''@c.us''"

text \<open>The three replies the handler sends.\<close>

definition hit_reply :: "jsval \<Rightarrow> reply" where
  "hit_reply cachedData =
     \<lparr> status = 200,
       headers = [(''X-Cache-Status'', ''HIT'')],
       body = JObj [(''success'', JBool True), (''result'', cachedData), (''source'', JStr ''cache'')] \<rparr>"

definition live_reply :: "jsval \<Rightarrow> reply" where
  "live_reply result =
     \<lparr> status = 200,
       headers = [(''X-Cache-Status'', ''MISS'')],
       body = JObj [(''success'', JBool True), (''result'', result), (''source'', JStr ''live'')] \<rparr>"

definition error_reply :: reply where
  "error_reply =
     \<lparr> status = 500,
       headers = [(''X-Cache-Status'', ''MISS'')],
       body = JObj [(''success'', JBool False),
                    (''error'', JStr ''An internal server error occurred.'')] \<rparr>"

text \<open>
  The result object: \<^verbatim>\<open>{ registered: isRegistered }\<close>, and for a registered user the four
  assignments \<^verbatim>\<open>result.name\<close>, \<^verbatim>\<open>result.number\<close>, \<^verbatim>\<open>result.profile_picture_url\<close> and
  \<^verbatim>\<open>result.is_business\<close>.
\<close>

definition base_result :: "bool \<Rightarrow> (string \<times> jsval) list" where
  "base_result isRegistered = [(''registered'', JBool isRegistered)]"

definition profile_result :: "contact \<Rightarrow> jsval \<Rightarrow> jsval" where
  "profile_result c pfpUrl =
     JObj (set_prop (set_prop (set_prop (set_prop (base_result True)
       ''name'' (js_or (pushname c) JNull))
       ''number'' (js_or (number c) JNull))
       ''profile_picture_url'' (js_or pfpUrl JNull))
       ''is_business'' (js_or (isBusiness c) (JBool False)))"

text \<open>
  One request run from its arrival to its reply with no other request in between: the
  reply, the cache afterwards and the calls made on the client. \<open>now\<close> is the time of the
  cache read, \<open>later\<close> the time of the cache write after the awaited calls.
\<close>

definition lookup ::
  "int \<Rightarrow> whatsapp \<Rightarrow> cache \<Rightarrow> int \<Rightarrow> int \<Rightarrow> string \<Rightarrow> reply \<times> cache \<times> upcall list" where
  "lookup ttl client c now later phone =
     (let cachedData = cache_get ttl c now (cacheKey phone) in
      if truthy cachedData then (hit_reply cachedData, c, [])
      else
        (case isRegisteredUser client (phoneNumberId phone) of
           Rejected e \<Rightarrow> (error_reply, c, [IsRegisteredUser (phoneNumberId phone)])
         | Resolved isRegistered \<Rightarrow>
             if isRegistered then
               (case getContactById client (phoneNumberId phone) of
                  Rejected e \<Rightarrow>
                    (error_reply, c,
                     [IsRegisteredUser (phoneNumberId phone), GetContactById (phoneNumberId phone)])
                | Resolved contact \<Rightarrow>
                    (case getProfilePicUrl client contact of
                       Rejected e \<Rightarrow>
                         (error_reply, c,
                          [IsRegisteredUser (phoneNumberId phone), GetContactById (phoneNumberId phone),
                           GetProfilePicUrl (phoneNumberId phone)])
                     | Resolved pfpUrl \<Rightarrow>
                         (let result = profile_result contact pfpUrl in
                          (live_reply result, cache_set c later (cacheKey phone) result,
                           [IsRegisteredUser (phoneNumberId phone), GetContactById (phoneNumberId phone),
                            GetProfilePicUrl (phoneNumberId phone)]))))
             else
               (let result = JObj (base_result False) in
                (live_reply result, cache_set c later (cacheKey phone) result,
                 [IsRegisteredUser (phoneNumberId phone)]))))"

section \<open>The route and its schema\<close>

text \<open>The params schema \<^verbatim>\<open>{ type: 'string', pattern: '^[0-9]+$' }\<close>.\<close>

definition is_digit :: "char \<Rightarrow> bool" where
  "is_digit ch = (ch \<in> set ''0123456789'')"

definition matches_pattern :: "string \<Rightarrow> bool" where
  "matches_pattern phone = (phone \<noteq> [] \<and> list_all is_digit phone)"

text \<open>
  A request whose params fail the schema never reaches the handler: the framework answers
  it. The framework (Fastify) is not part of the sources, and the source registers no error
  handler and no schema error formatter, so the reply to a refused request is an input of
  the model: \<open>refuse\<close> gives, for a raw identifier, the reply the framework makes when it
  refuses the request, at whichever of its stages (its router or the schema of the route).
\<close>

definition route_check ::
  "(string \<Rightarrow> reply) \<Rightarrow> int \<Rightarrow> whatsapp \<Rightarrow> cache \<Rightarrow> int \<Rightarrow> int \<Rightarrow> string \<Rightarrow>
   reply \<times> cache \<times> upcall list" where
  "route_check refuse ttl client c now later phone =
     (if matches_pattern phone then lookup ttl client c now later phone
      else (refuse phone, c, []))"

section \<open>Requests in flight\<close>

text \<open>
  The handler is an \<^verbatim>\<open>async\<close> function: it runs until an \<^verbatim>\<open>await\<close>, where other requests may
  run, and goes on when the awaited call settles. A request is either suspended at one of
  the three awaits or has sent its reply.
\<close>

datatype pending =
    AwaitRegistered string
  | AwaitContact string
  | AwaitPic string contact

datatype req = Pending pending | Done reply

datatype settled =
    Registered "bool outcome"
  | Contact "contact outcome"
  | ProfilePicUrl "jsval outcome"

text \<open>From the arrival of a request to its first \<^verbatim>\<open>await\<close> (or to the reply of a cache hit).\<close>

definition enter :: "int \<Rightarrow> cache \<Rightarrow> int \<Rightarrow> string \<Rightarrow> req \<times> upcall list" where
  "enter ttl c now phone =
     (let cachedData = cache_get ttl c now (cacheKey phone) in
      if truthy cachedData then (Done (hit_reply cachedData), [])
      else (Pending (AwaitRegistered phone), [IsRegisteredUser (phoneNumberId phone)]))"

text \<open>
  From one \<^verbatim>\<open>await\<close> to the next (or to the reply), once the awaited call has settled.
  \<open>None\<close>: the settled call is not the one the request waits for.
\<close>

fun resume :: "cache \<Rightarrow> int \<Rightarrow> pending \<Rightarrow> settled \<Rightarrow> (req \<times> cache \<times> upcall list) option" where
  "resume c now (AwaitRegistered phone) (Registered r) = Some
     (case r of
        Rejected e \<Rightarrow> (Done error_reply, c, [])
      | Resolved isRegistered \<Rightarrow>
          if isRegistered then
            (Pending (AwaitContact phone), c, [GetContactById (phoneNumberId phone)])
          else
            (let result = JObj (base_result False) in
             (Done (live_reply result), cache_set c now (cacheKey phone) result, [])))"
| "resume c now (AwaitContact phone) (Contact r) = Some
     (case r of
        Rejected e \<Rightarrow> (Done error_reply, c, [])
      | Resolved contact \<Rightarrow>
          (Pending (AwaitPic phone contact), c, [GetProfilePicUrl (phoneNumberId phone)]))"
| "resume c now (AwaitPic phone contact) (ProfilePicUrl r) = Some
     (case r of
        Rejected e \<Rightarrow> (Done error_reply, c, [])
      | Resolved pfpUrl \<Rightarrow>
          (let result = profile_result contact pfpUrl in
           (Done (live_reply result), cache_set c now (cacheKey phone) result, [])))"
| "resume c now p x = None"

text \<open>
  The process: the cache, the requests that have arrived (by arrival number) and the calls
  made on the session client so far.
\<close>

record sys =
  store :: cache
  requests :: "req list"
  calls :: "upcall list"

definition init :: sys where
  "init = \<lparr> store = Map.empty, requests = [], calls = [] \<rparr>"

datatype event = Arrive int string | Settle int nat settled

text \<open>A request arrives: the schema of the route first, then the handler.\<close>

definition arrive ::
  "(string \<Rightarrow> reply) \<Rightarrow> int \<Rightarrow> cache \<Rightarrow> int \<Rightarrow> string \<Rightarrow> req \<times> upcall list" where
  "arrive refuse ttl c now phone =
     (if matches_pattern phone then enter ttl c now phone else (Done (refuse phone), []))"

fun sys_step :: "(string \<Rightarrow> reply) \<Rightarrow> int \<Rightarrow> sys \<Rightarrow> event \<Rightarrow> sys option" where
  "sys_step refuse ttl s (Arrive now phone) =
     (case arrive refuse ttl (store s) now phone of
        (r, cs) \<Rightarrow> Some (s\<lparr> requests := requests s @ [r], calls := calls s @ cs \<rparr>))"
| "sys_step refuse ttl s (Settle now i x) =
     (if i < length (requests s) then
        (case requests s ! i of
           Done r \<Rightarrow> None
         | Pending p \<Rightarrow>
             (case resume (store s) now p x of
                None \<Rightarrow> None
              | Some (r, c', cs) \<Rightarrow>
                  Some \<lparr> store = c', requests = (requests s)[i := r], calls = calls s @ cs \<rparr>))
      else None)"

fun run :: "(string \<Rightarrow> reply) \<Rightarrow> int \<Rightarrow> sys \<Rightarrow> event list \<Rightarrow> sys option" where
  "run refuse ttl s [] = Some s"
| "run refuse ttl s (e # es) =
     (case sys_step refuse ttl s e of None \<Rightarrow> None | Some s' \<Rightarrow> run refuse ttl s' es)"

text \<open>
  The invariant of the cache: every stored value is an object whose first property is
  \<^verbatim>\<open>registered\<close>, holding a boolean.
\<close>

definition well_stored :: "cache \<Rightarrow> bool" where
  "well_stored c =
     (\<forall>k v t. c k = Some (v, t) \<longrightarrow> (\<exists>b fs. v = JObj ((''registered'', JBool b) # fs)))"

section \<open>Shutdown\<close>

text \<open>
  What \<^verbatim>\<open>gracefulShutdown\<close> reads of its arguments: whether the client's Puppeteer browser
  exists (\<^verbatim>\<open>client.pupBrowser\<close>) and whether the server listens
  (\<^verbatim>\<open>server.server.listening\<close>). \<open>None\<close> is \<^verbatim>\<open>undefined\<close> or \<^verbatim>\<open>null\<close>.
\<close>

record client_handle =
  pupBrowser :: bool

record server_handle =
  listening :: bool

datatype effect = ServerClose | ClientDestroy | CacheFlushAll

datatype ending = Exit nat | Reject js_error

record shutdown =
  effects :: "effect list"
  cache_left :: cache
  ending :: ending

fun rejection :: "'a outcome \<Rightarrow> js_error option" where
  "rejection (Resolved x) = None"
| "rejection (Rejected e) = Some e"

text \<open>
  \<open>close_res\<close> and \<open>destroy_res\<close> are what \<^verbatim>\<open>await server.close()\<close> and
  \<^verbatim>\<open>await client.destroy()\<close> settle to when they are called; a rejection leaves the function
  at that point, before \<^verbatim>\<open>process.exit\<close>.
\<close>

definition gracefulShutdown ::
  "client_handle option \<Rightarrow> server_handle option \<Rightarrow> string \<Rightarrow>
   unit outcome \<Rightarrow> unit outcome \<Rightarrow> cache \<Rightarrow> shutdown" where
  "gracefulShutdown client server signal close_res destroy_res c =
     (let closing = (case server of None \<Rightarrow> False | Some s \<Rightarrow> listening s);
          destroying = (case client of None \<Rightarrow> False | Some cl \<Rightarrow> pupBrowser cl);
          fx1 = (if closing then [ServerClose] else []);
          fx2 = fx1 @ (if destroying then [ClientDestroy] else [])
      in
      case (if closing then rejection close_res else None) of
        Some e \<Rightarrow> \<lparr> effects = fx1, cache_left = c, ending = Reject e \<rparr>
      | None \<Rightarrow>
          (case (if destroying then rejection destroy_res else None) of
             Some e \<Rightarrow> \<lparr> effects = fx2, cache_left = c, ending = Reject e \<rparr>
           | None \<Rightarrow>
               \<lparr> effects = fx2 @ [CacheFlushAll],
                 cache_left = flushAll c,
                 ending = Exit (if signal = ''Startup Failure'' then 1 else 0) \<rparr>))"

text \<open>
  The three callers: the handlers of \<^verbatim>\<open>SIGINT\<close> and \<^verbatim>\<open>SIGTERM\<close> registered in \<^verbatim>\<open>main\<close>, the
  \<^verbatim>\<open>auth_failure\<close> handler of the client, and the \<^verbatim>\<open>catch\<close> of \<^verbatim>\<open>main\<close>, where the client
  and the server may still be \<^verbatim>\<open>undefined\<close>.
\<close>

datatype os_signal = SIGINT | SIGTERM

fun signal_name :: "os_signal \<Rightarrow> string" where
  "signal_name SIGINT = ''SIGINT''"
| "signal_name SIGTERM = ''SIGTERM''"

definition on_signal ::
  "client_handle \<Rightarrow> server_handle \<Rightarrow> os_signal \<Rightarrow> unit outcome \<Rightarrow> unit outcome \<Rightarrow> cache \<Rightarrow> shutdown" where
  "on_signal client server sig = gracefulShutdown (Some client) (Some server) (signal_name sig)"

definition on_auth_failure ::
  "client_handle \<Rightarrow> unit outcome \<Rightarrow> unit outcome \<Rightarrow> cache \<Rightarrow> shutdown" where
  "on_auth_failure client = gracefulShutdown (Some client) None ''Authentication Failure''"

definition on_startup_failure ::
  "client_handle option \<Rightarrow> server_handle option \<Rightarrow> unit outcome \<Rightarrow> unit outcome \<Rightarrow> cache \<Rightarrow> shutdown" where
  "on_startup_failure client server = gracefulShutdown client server ''Startup Failure''"

section \<open>Predicates and inputs of the examples\<close>

text \<open>
  The profile fetch of a registered user is the pair of calls \<^verbatim>\<open>getContactById\<close> and
  \<^verbatim>\<open>getProfilePicUrl\<close>; it fails when either of them rejects.
\<close>

definition profile_fetch_fails :: "whatsapp \<Rightarrow> string \<Rightarrow> bool" where
  "profile_fetch_fails client ident =
     (case getContactById client ident of
        Rejected e \<Rightarrow> True
      | Resolved ct \<Rightarrow>
          (case getProfilePicUrl client ct of Rejected e \<Rightarrow> True | Resolved u \<Rightarrow> False))"

text \<open>
  The reply Fastify makes by default to a request whose params fail the schema (status
  400 and its own error object), as an example of a framework's refusal; a registered user
  named Alice with no avatar and no business account; a client that
  reports every number as not registered; a client whose calls all reject with the same
  error; two clients whose registration check succeeds and whose profile fetch fails, at
  the contact and at the picture.
\<close>

definition default_refusal :: "string \<Rightarrow> reply" where
  "default_refusal phone =
     \<lparr> status = 400,
       headers = [],
       body = JObj [(''statusCode'', JNum 400), (''code'', JStr ''FST_ERR_VALIDATION''),
                    (''error'', JStr ''Bad Request''),
                    (''message'', JStr ''params/phone must match pattern \"^[0-9]+$\"'')] \<rparr>"

definition alice :: contact where
  "alice = \<lparr> pushname = JStr ''Alice'', number = JStr ''15559999999'', isBusiness = JBool False \<rparr>"

definition alice_client :: whatsapp where
  "alice_client =
     \<lparr> isRegisteredUser = (\<lambda>ident. Resolved True),
       getContactById = (\<lambda>ident. Resolved alice),
       getProfilePicUrl = (\<lambda>ct. Resolved JUndefined) \<rparr>"

definition unregistered_client :: whatsapp where
  "unregistered_client =
     \<lparr> isRegisteredUser = (\<lambda>ident. Resolved False),
       getContactById = (\<lambda>ident. Rejected (OtherError ''no such contact'')),
       getProfilePicUrl = (\<lambda>ct. Resolved JUndefined) \<rparr>"

definition rejecting_client :: "js_error \<Rightarrow> whatsapp" where
  "rejecting_client e =
     \<lparr> isRegisteredUser = (\<lambda>ident. Rejected e),
       getContactById = (\<lambda>ident. Rejected e),
       getProfilePicUrl = (\<lambda>ct. Rejected e) \<rparr>"

definition failing_contact_client :: whatsapp where
  "failing_contact_client =
     \<lparr> isRegisteredUser = (\<lambda>ident. Resolved True),
       getContactById = (\<lambda>ident. Rejected (OtherError ''Evaluation failed'')),
       getProfilePicUrl = (\<lambda>ct. Resolved JUndefined) \<rparr>"

definition failing_picture_client :: whatsapp where
  "failing_picture_client =
     \<lparr> isRegisteredUser = (\<lambda>ident. Resolved True),
       getContactById = (\<lambda>ident. Resolved alice),
       getProfilePicUrl = (\<lambda>ct. Rejected (OtherError ''Evaluation failed'')) \<rparr>"

section \<open>Basic facts\<close>

lemma config_ttl_nonzero: "config_ttl parsed \<noteq> 0"
  by (simp add: config_ttl_def split: option.splits)

lemma config_ttl_default: "config_ttl None = 600" "config_ttl (Some 0) = 600" "config_ttl (Some 60) = 60"
  by (simp_all add: config_ttl_def)

lemma digits_valid: "matches_pattern ''15559999999''" "matches_pattern ''15551234567''"
  by (simp_all add: matches_pattern_def is_digit_def)



lemma profile_result_eq:
  "profile_result ct u =
     JObj [(''registered'', JBool True), (''name'', js_or (pushname ct) JNull),
           (''number'', js_or (number ct) JNull),
           (''profile_picture_url'', js_or u JNull),
           (''is_business'', js_or (isBusiness ct) (JBool False))]"
  by (simp add: profile_result_def base_result_def)

section \<open>The handler, one request at a time\<close>

text \<open>
  Claim C2, as the code has it. The handler has no readiness gate and no reply of its own
  for a session that is not ready: for every valid identifier, when the registration check
  rejects (with a not-ready error or any other), an unexpired cache entry is still served
  as a cache hit, and otherwise the reply is the generic status 500 reply, the cache is
  left as it was and the registration check is the only call made on the client.
\<close>

theorem unready_session_generic_error:
  assumes "matches_pattern phone"
    and "isRegisteredUser client (phoneNumberId phone) = Rejected e"
  shows "route_check refuse ttl client c now later phone =
     (if truthy (cache_get ttl c now (cacheKey phone))
      then (hit_reply (cache_get ttl c now (cacheKey phone)), c, [])
      else (error_reply, c, [IsRegisteredUser (phoneNumberId phone)]))"
  using assms by (simp add: route_check_def lookup_def)

theorem unready_session_generic_error_witness:
  "route_check default_refusal 600 (rejecting_client NotReadyError) Map.empty 0 1 ''15551234567'' =
     (error_reply, Map.empty, [IsRegisteredUser ''15551234567@c.us''])"
  using unready_session_generic_error
    [where phone = "''15551234567''" and client = "rejecting_client NotReadyError"
       and e = NotReadyError and refuse = default_refusal and ttl = 600 and c = Map.empty
       and now = 0 and later = 1]
  by (simp add: digits_valid cache_get_def rejecting_client_def phoneNumberId_def)

text \<open>
  Claim C2 as stated fails: with the session not ready (every call of the client rejects
  with the not-ready error) and an empty cache, the lookup of 15551234567 is answered with
  status 500 and the generic internal server error body.
\<close>

theorem unready_session_counterexample:
  "fst (route_check default_refusal 600 (rejecting_client NotReadyError) Map.empty 0 1 ''15551234567'') =
     \<lparr> status = 500, headers = [(''X-Cache-Status'', ''MISS'')],
       body = JObj [(''success'', JBool False),
                    (''error'', JStr ''An internal server error occurred.'')] \<rparr>"
  by (simp add: route_check_def digits_valid lookup_def cache_get_def rejecting_client_def
      error_reply_def)




text \<open>
  Claim C5. For every valid identifier with no cache hit whose registration check
  succeeds and whose profile fetch then fails, the reply is the error reply: status 500,
  \<^verbatim>\<open>success\<close> false and no \<^verbatim>\<open>result\<close> property at all; and the cache afterwards is the cache
  before, so no entry is written.
\<close>

theorem failed_profile_fetch_fails_lookup:
  assumes "matches_pattern phone"
    and "\<not> truthy (cache_get ttl c now (cacheKey phone))"
    and "isRegisteredUser client (phoneNumberId phone) = Resolved True"
    and "profile_fetch_fails client (phoneNumberId phone)"
  shows "fst (route_check refuse ttl client c now later phone) = error_reply \<and>
         status error_reply = 500 \<and>
         get_prop (body error_reply) ''success'' = JBool False \<and>
         get_prop (body error_reply) ''result'' = JUndefined \<and>
         fst (snd (route_check refuse ttl client c now later phone)) = c"
  using assms
  by (simp add: route_check_def lookup_def profile_fetch_fails_def error_reply_def
      split: outcome.splits)

theorem failed_profile_fetch_fails_lookup_witness:
  "fst (route_check default_refusal 600 failing_contact_client Map.empty 0 1 ''15559999999'') = error_reply \<and>
   fst (snd (route_check default_refusal 600 failing_contact_client Map.empty 0 1 ''15559999999'')) = Map.empty \<and>
   fst (route_check default_refusal 600 failing_picture_client Map.empty 0 1 ''15559999999'') = error_reply \<and>
   fst (snd (route_check default_refusal 600 failing_picture_client Map.empty 0 1 ''15559999999'')) = Map.empty \<and>
   status error_reply = 500 \<and>
   get_prop (body error_reply) ''success'' = JBool False \<and>
   get_prop (body error_reply) ''result'' = JUndefined"
  using failed_profile_fetch_fails_lookup
    [where phone = "''15559999999''" and ttl = 600 and c = Map.empty and now = 0
       and client = failing_contact_client and later = 1 and refuse = default_refusal]
    failed_profile_fetch_fails_lookup
    [where phone = "''15559999999''" and ttl = 600 and c = Map.empty and now = 0
       and client = failing_picture_client and later = 1 and refuse = default_refusal]
  by (simp add: digits_valid cache_get_def failing_contact_client_def failing_picture_client_def
      profile_fetch_fails_def)

text \<open>
  Claim C6. For every valid identifier, a successful lookup leaves an entry for the
  identifier in the cache that holds the result it sent (inserted at the time of its own
  cache write when it was a miss), and a second lookup for the same identifier made while
  that entry is within its TTL is answered from the cache: the same result content as the
  first reply, source \<^verbatim>\<open>cache\<close>, header \<^verbatim>\<open>X-Cache-Status: HIT\<close>, the cache left as it was
  and no call made on the session client (whatever client the second lookup is given).
\<close>

theorem second_lookup_within_ttl_hits:
  assumes valid: "matches_pattern phone"
    and first: "route_check refuse ttl client c now later phone = (r1, c1, calls1)"
    and ok: "get_prop (body r1) ''success'' = JBool True"
  shows "\<exists>v insertedAt.
      c1 (cacheKey phone) = Some (v, insertedAt) \<and>
      (\<not> truthy (cache_get ttl c now (cacheKey phone)) \<longrightarrow> insertedAt = later) \<and>
      (now2 - insertedAt < ttl \<longrightarrow>
         route_check refuse ttl client2 c1 now2 later2 phone = (hit_reply v, c1, []) \<and>
         get_prop (body (hit_reply v)) ''result'' = get_prop (body r1) ''result'' \<and>
         get_prop (body (hit_reply v)) ''source'' = JStr ''cache'' \<and>
         headers (hit_reply v) = [(''X-Cache-Status'', ''HIT'')])"
proof -
  let ?cached = "cache_get ttl c now (cacheKey phone)"
  have "\<exists>v insertedAt. c1 (cacheKey phone) = Some (v, insertedAt) \<and>
      (\<not> truthy ?cached \<longrightarrow> insertedAt = later) \<and>
      get_prop (body r1) ''result'' = v \<and> truthy v"
  proof (cases "truthy ?cached")
    case True
    with valid first have r1: "r1 = hit_reply ?cached" and c1: "c1 = c"
      by (auto simp: route_check_def lookup_def)
    from True obtain t where "c (cacheKey phone) = Some (?cached, t)"
      by (auto simp: cache_get_def split: option.splits if_splits)
    with True r1 c1 show ?thesis by (simp add: hit_reply_def)
  next
    case False
    with valid first ok show ?thesis
      by (auto simp: route_check_def lookup_def Let_def error_reply_def live_reply_def
          cache_set_def profile_result_eq base_result_def split: outcome.splits if_splits)
  qed
  then obtain v insertedAt where
    entry: "c1 (cacheKey phone) = Some (v, insertedAt)"
    and at: "\<not> truthy ?cached \<longrightarrow> insertedAt = later"
    and res: "get_prop (body r1) ''result'' = v" and tv: "truthy v"
    by blast
  have "route_check refuse ttl client2 c1 now2 later2 phone = (hit_reply v, c1, []) \<and>
         get_prop (body (hit_reply v)) ''result'' = get_prop (body r1) ''result'' \<and>
         get_prop (body (hit_reply v)) ''source'' = JStr ''cache'' \<and>
         headers (hit_reply v) = [(''X-Cache-Status'', ''HIT'')]"
    if within: "now2 - insertedAt < ttl"
  proof -
    from entry within have "cache_get ttl c1 now2 (cacheKey phone) = v"
      by (simp add: cache_get_def)
    with res tv valid show ?thesis
      by (simp add: route_check_def lookup_def hit_reply_def)
  qed
  with entry at show ?thesis by blast
qed

theorem second_lookup_within_ttl_hits_witness:
  "route_check default_refusal 600 unregistered_client Map.empty 0 1 ''15551234567'' =
     (live_reply (JObj [(''registered'', JBool False)]),
      [cacheKey ''15551234567'' \<mapsto> (JObj [(''registered'', JBool False)], 1)],
      [IsRegisteredUser ''15551234567@c.us'']) \<and>
   route_check default_refusal 600 (rejecting_client NotReadyError)
      [cacheKey ''15551234567'' \<mapsto> (JObj [(''registered'', JBool False)], 1)] 5 6 ''15551234567'' =
     (hit_reply (JObj [(''registered'', JBool False)]),
      [cacheKey ''15551234567'' \<mapsto> (JObj [(''registered'', JBool False)], 1)], []) \<and>
   get_prop (body (hit_reply (JObj [(''registered'', JBool False)]))) ''result'' =
     get_prop (body (live_reply (JObj [(''registered'', JBool False)]))) ''result'' \<and>
   get_prop (body (hit_reply (JObj [(''registered'', JBool False)]))) ''source'' = JStr ''cache'' \<and>
   headers (hit_reply (JObj [(''registered'', JBool False)])) = [(''X-Cache-Status'', ''HIT'')]"
proof -
  let ?p = "''15551234567''"
  let ?v = "JObj [(''registered'', JBool False)]"
  let ?c1 = "[cacheKey ?p \<mapsto> (?v, 1::int)]"
  have first: "route_check default_refusal 600 unregistered_client Map.empty 0 1 ?p =
      (live_reply ?v, ?c1, [IsRegisteredUser ''15551234567@c.us''])"
    by (simp add: route_check_def digits_valid lookup_def Let_def cache_get_def cache_set_def
        unregistered_client_def base_result_def phoneNumberId_def)
  have ok: "get_prop (body (live_reply ?v)) ''success'' = JBool True"
    by (simp add: live_reply_def)
  from second_lookup_within_ttl_hits
    [OF digits_valid(2) first ok, of 5 "rejecting_client NotReadyError" 6]
  obtain v t where entry: "?c1 (cacheKey ?p) = Some (v, t)"
    and hit: "5 - t < 600 \<longrightarrow>
         route_check default_refusal 600 (rejecting_client NotReadyError) ?c1 5 6 ?p = (hit_reply v, ?c1, []) \<and>
         get_prop (body (hit_reply v)) ''result'' = get_prop (body (live_reply ?v)) ''result'' \<and>
         get_prop (body (hit_reply v)) ''source'' = JStr ''cache'' \<and>
         headers (hit_reply v) = [(''X-Cache-Status'', ''HIT'')]"
    by blast
  from entry have "v = ?v" and "t = 1" by simp_all
  with hit have "route_check default_refusal 600 (rejecting_client NotReadyError) ?c1 5 6 ?p = (hit_reply ?v, ?c1, []) \<and>
         get_prop (body (hit_reply ?v)) ''result'' = get_prop (body (live_reply ?v)) ''result'' \<and>
         get_prop (body (hit_reply ?v)) ''source'' = JStr ''cache'' \<and>
         headers (hit_reply ?v) = [(''X-Cache-Status'', ''HIT'')]"
    by simp
  with first show ?thesis by (rule conjI)
qed

text \<open>
  Claim C7, as the code has it. For every valid identifier with no cache hit that the
  client reports as registered and whose profile fetch succeeds, the result of the reply is
  an object with exactly the five properties \<^verbatim>\<open>registered\<close>, \<^verbatim>\<open>name\<close>, \<^verbatim>\<open>number\<close>,
  \<^verbatim>\<open>profile_picture_url\<close> and \<^verbatim>\<open>is_business\<close>, in this order; a falsy name, number or picture
  URL is replaced by null and a falsy business flag by false.
\<close>

theorem registered_result_fields:
  assumes "matches_pattern phone"
    and "\<not> truthy (cache_get ttl c now (cacheKey phone))"
    and "isRegisteredUser client (phoneNumberId phone) = Resolved True"
    and "getContactById client (phoneNumberId phone) = Resolved ct"
    and "getProfilePicUrl client ct = Resolved pfpUrl"
  shows "get_prop (body (fst (route_check refuse ttl client c now later phone))) ''result'' =
     JObj [(''registered'', JBool True), (''name'', js_or (pushname ct) JNull),
           (''number'', js_or (number ct) JNull),
           (''profile_picture_url'', js_or pfpUrl JNull),
           (''is_business'', js_or (isBusiness ct) (JBool False))]"
  using assms by (simp add: route_check_def lookup_def Let_def live_reply_def profile_result_eq)

theorem registered_result_fields_witness:
  "get_prop (body (fst (route_check default_refusal 600 alice_client Map.empty 0 1 ''15559999999''))) ''result'' =
     JObj [(''registered'', JBool True), (''name'', JStr ''Alice''),
           (''number'', JStr ''15559999999''), (''profile_picture_url'', JNull),
           (''is_business'', JBool False)]"
  using registered_result_fields
    [where phone = "''15559999999''" and ttl = 600 and c = Map.empty and now = 0
       and client = alice_client and ct = alice and pfpUrl = JUndefined and later = 1
       and refuse = default_refusal]
  by (simp add: digits_valid cache_get_def alice_client_def alice_def js_or_def)

text \<open>
  Claim C7 as stated fails: for Alice (no avatar, no business account) the result is not
  the record with the properties \<^verbatim>\<open>displayName\<close>, \<^verbatim>\<open>canonicalNumber\<close>, \<^verbatim>\<open>avatarUrl\<close> and
  \<^verbatim>\<open>isBusiness\<close>.
\<close>

theorem registered_result_fields_counterexample:
  "get_prop (body (fst (route_check default_refusal 600 alice_client Map.empty 0 1 ''15559999999''))) ''result'' \<noteq>
     JObj [(''registered'', JBool True), (''displayName'', JStr ''Alice''),
           (''canonicalNumber'', JStr ''15559999999''), (''avatarUrl'', JNull),
           (''isBusiness'', JBool False)]"
  by (simp add: route_check_def digits_valid lookup_def Let_def cache_get_def alice_client_def
      alice_def live_reply_def profile_result_eq js_or_def)

text \<open>
  Claim C9. For every pair of distinct identifiers the cache keys are distinct; storing
  a value under the key of one leaves what the cache returns for the other as it was, and
  with it the reply to a lookup of the other.
\<close>

theorem cache_keys_distinct:
  "p \<noteq> q \<Longrightarrow>
   cacheKey p \<noteq> cacheKey q \<and>
   cache_get ttl (cache_set c t (cacheKey p) v) now (cacheKey q) = cache_get ttl c now (cacheKey q) \<and>
   fst (lookup ttl client (cache_set c t (cacheKey p) v) now later q) =
   fst (lookup ttl client c now later q)"
  by (simp add: cacheKey_def cache_get_def cache_set_def lookup_def Let_def split: outcome.splits)

theorem cache_keys_distinct_witness:
  "cacheKey ''15551234567'' \<noteq> cacheKey ''15559999999'' \<and>
   cache_get 600 (cache_set Map.empty 0 (cacheKey ''15551234567'') (JObj (base_result False))) 5
     (cacheKey ''15559999999'') = JUndefined \<and>
   fst (lookup 600 alice_client
         (cache_set Map.empty 0 (cacheKey ''15551234567'') (JObj (base_result False))) 5 6
         ''15559999999'') =
   fst (lookup 600 alice_client Map.empty 5 6 ''15559999999'')"
  using cache_keys_distinct
    [of "''15551234567''" "''15559999999''" 600 Map.empty 0 "JObj (base_result False)" 5
      alice_client 6]
  by (simp add: cache_get_def)

lemma route_check_status:
  "matches_pattern phone \<Longrightarrow>
   status (fst (route_check refuse ttl client c now later phone)) \<in> {200, 500}"
  by (simp add: route_check_def lookup_def Let_def hit_reply_def live_reply_def error_reply_def
      split: outcome.splits)

section \<open>Requests in flight\<close>

lemma arrive_miss:
  "matches_pattern phone \<Longrightarrow> \<not> truthy (cache_get ttl (store s) now (cacheKey phone)) \<Longrightarrow>
   sys_step refuse ttl s (Arrive now phone) =
     Some (s\<lparr> requests := requests s @ [Pending (AwaitRegistered phone)],
              calls := calls s @ [IsRegisteredUser (phoneNumberId phone)] \<rparr>)"
  by (simp add: arrive_def enter_def)

lemma arrivals_miss:
  assumes "matches_pattern phone"
    and "\<forall>now \<in> set nows. \<not> truthy (cache_get ttl (store s) now (cacheKey phone))"
  shows "run refuse ttl s (map (\<lambda>now. Arrive now phone) nows) =
     Some (s\<lparr> requests := requests s @ replicate (length nows) (Pending (AwaitRegistered phone)),
              calls := calls s @ replicate (length nows) (IsRegisteredUser (phoneNumberId phone)) \<rparr>)"
  using assms
proof (induction nows arbitrary: s)
  case Nil
  then show ?case by simp
next
  case (Cons t ts)
  let ?s' = "s\<lparr> requests := requests s @ [Pending (AwaitRegistered phone)],
              calls := calls s @ [IsRegisteredUser (phoneNumberId phone)] \<rparr>"
  from Cons.prems have miss: "\<not> truthy (cache_get ttl (store s) t (cacheKey phone))"
    by simp
  have step: "sys_step refuse ttl s (Arrive t phone) = Some ?s'"
    by (rule arrive_miss [OF Cons.prems(1) miss])
  from Cons.prems have "\<forall>now \<in> set ts. \<not> truthy (cache_get ttl (store ?s') now (cacheKey phone))"
    by simp
  with Cons.IH [of ?s'] Cons.prems(1) step show ?case
    by (simp add: replicate_app_Cons_same)
qed

text \<open>
  What a request goes on to when its awaited call settles is decided by the request's own
  state and the value its own call settled to, whatever the cache holds and whatever the
  time.
\<close>

lemma resume_own:
  assumes "resume c now p x = Some (r, c', cs)"
  shows "map_option fst (resume c0 t0 p x) = Some r"
proof (cases "(c, now, p, x)" rule: resume.cases)
  case (1 c1 now1 phone r1)
  with assms show ?thesis
    by (auto simp: Let_def split: outcome.splits if_splits)
next
  case (2 c1 now1 phone r1)
  with assms show ?thesis
    by (auto split: outcome.splits)
next
  case (3 c1 now1 phone contact r1)
  with assms show ?thesis
    by (auto simp: Let_def split: outcome.splits)
qed (use assms in auto)

lemma settle_own:
  assumes "sys_step refuse ttl s1 (Settle now1 i x) = Some s2"
  shows "i < length (requests s1) \<and> length (requests s2) = length (requests s1) \<and>
         (\<forall>j. j \<noteq> i \<longrightarrow> requests s2 ! j = requests s1 ! j) \<and>
         (\<exists>p. requests s1 ! i = Pending p \<and>
              (\<forall>c0 t0. map_option fst (resume c0 t0 p x) = Some (requests s2 ! i)))"
proof -
  from assms have i: "i < length (requests s1)"
    by (simp split: if_splits)
  with assms obtain p r c' cs where p: "requests s1 ! i = Pending p"
    and res: "resume (store s1) now1 p x = Some (r, c', cs)"
    and s2: "s2 = \<lparr> store = c', requests = (requests s1)[i := r], calls = calls s1 @ cs \<rparr>"
    by (auto split: req.splits option.splits)
  have "\<forall>c0 t0. map_option fst (resume c0 t0 p x) = Some r"
    using resume_own [OF res] by simp
  with i p s2 show ?thesis by simp
qed

text \<open>
  Claim C1, as the code has it. The handler does not coalesce concurrent lookups: for
  every valid identifier with no cache hit, the lookups that arrive before any of them
  has resolved each issue a registration query of their own, so after \<open>n\<close> arrivals \<open>n\<close>
  requests are suspended at their registration check and \<open>n\<close> registration queries for the
  identifier have been made on the client. And every caller receives the outcome of its own
  computation: in every state of the process, a call that settles changes only the request
  that awaited it, and what that request goes on to (its reply, when it is done) is decided
  by its own state and the value its own call settled to, whatever the cache, the time and
  the other requests.
\<close>

theorem concurrent_lookups_not_coalesced:
  assumes "matches_pattern phone"
    and "\<forall>now \<in> set nows. \<not> truthy (cache_get ttl (store s) now (cacheKey phone))"
  shows "run refuse ttl s (map (\<lambda>now. Arrive now phone) nows) =
     Some (s\<lparr> requests := requests s @ replicate (length nows) (Pending (AwaitRegistered phone)),
              calls := calls s @ replicate (length nows) (IsRegisteredUser (phoneNumberId phone)) \<rparr>) \<and>
    (sys_step refuse ttl sa (Settle t i x) = Some sb \<longrightarrow>
       i < length (requests sa) \<and> length (requests sb) = length (requests sa) \<and>
       (\<forall>j. j \<noteq> i \<longrightarrow> requests sb ! j = requests sa ! j) \<and>
       (\<exists>p. requests sa ! i = Pending p \<and>
            (\<forall>c0 t0. map_option fst (resume c0 t0 p x) = Some (requests sb ! i))))"
  using arrivals_miss [OF assms] settle_own by blast

theorem concurrent_lookups_not_coalesced_witness:
  "run default_refusal 600 init
      [Arrive 0 ''15551234567'', Arrive 1 ''15551234567'', Arrive 2 ''15551234567''] =
     Some \<lparr> store = Map.empty,
            requests = [Pending (AwaitRegistered ''15551234567''),
                        Pending (AwaitRegistered ''15551234567''),
                        Pending (AwaitRegistered ''15551234567'')],
            calls = [IsRegisteredUser ''15551234567@c.us'', IsRegisteredUser ''15551234567@c.us'',
                     IsRegisteredUser ''15551234567@c.us''] \<rparr> \<and>
   sys_step default_refusal 600
      \<lparr> store = Map.empty,
        requests = [Pending (AwaitRegistered ''15551234567''),
                    Pending (AwaitRegistered ''15551234567''),
                    Pending (AwaitRegistered ''15551234567'')],
        calls = [IsRegisteredUser ''15551234567@c.us'', IsRegisteredUser ''15551234567@c.us'',
                 IsRegisteredUser ''15551234567@c.us''] \<rparr>
      (Settle 3 1 (Registered (Rejected (OtherError ''Evaluation failed'')))) =
     Some \<lparr> store = Map.empty,
            requests = [Pending (AwaitRegistered ''15551234567''), Done error_reply,
                        Pending (AwaitRegistered ''15551234567'')],
            calls = [IsRegisteredUser ''15551234567@c.us'', IsRegisteredUser ''15551234567@c.us'',
                     IsRegisteredUser ''15551234567@c.us''] \<rparr> \<and>
   (\<forall>c0 t0. map_option fst
       (resume c0 t0 (AwaitRegistered ''15551234567'')
          (Registered (Rejected (OtherError ''Evaluation failed'')))) = Some (Done error_reply))"
proof -
  let ?p = "''15551234567''"
  let ?q = "IsRegisteredUser ''15551234567@c.us''"
  let ?s1 = "\<lparr> store = Map.empty,
        requests = [Pending (AwaitRegistered ?p), Pending (AwaitRegistered ?p),
                    Pending (AwaitRegistered ?p)],
        calls = [?q, ?q, ?q] \<rparr>"
  let ?s2 = "\<lparr> store = Map.empty,
        requests = [Pending (AwaitRegistered ?p), Done error_reply, Pending (AwaitRegistered ?p)],
        calls = [?q, ?q, ?q] \<rparr>"
  let ?x = "Registered (Rejected (OtherError ''Evaluation failed''))"
  have miss: "\<forall>now \<in> set [0, 1, 2]. \<not> truthy (cache_get 600 (store init) now (cacheKey ?p))"
    by (simp add: init_def cache_get_def)
  have step: "sys_step default_refusal 600 ?s1 (Settle 3 1 ?x) = Some ?s2"
    by simp
  note inst = concurrent_lookups_not_coalesced
    [OF digits_valid(2) miss, where refuse = default_refusal and sa = ?s1 and t = 3
       and i = 1 and x = ?x and sb = ?s2]
  from inst have arrivals: "run default_refusal 600 init [Arrive 0 ?p, Arrive 1 ?p, Arrive 2 ?p] = Some ?s1"
    by (simp add: init_def phoneNumberId_def numeral_3_eq_3)
  from inst step have "\<exists>p. requests ?s1 ! 1 = Pending p \<and>
      (\<forall>c0 t0. map_option fst (resume c0 t0 p ?x) = Some (requests ?s2 ! 1))"
    by blast
  then have own: "\<forall>c0 t0. map_option fst (resume c0 t0 (AwaitRegistered ?p) ?x) = Some (Done error_reply)"
    by simp
  from arrivals step own show ?thesis by blast
qed

text \<open>
  Claim C1 as stated fails: two lookups of 15551234567 that arrive on an empty cache
  before either has resolved leave both requests suspended at their registration check,
  with two registration queries made on the client; and when the first query resolves and
  the second rejects, the two callers get different outcomes.
\<close>

theorem concurrent_lookups_counterexample:
  "run default_refusal 600 init [Arrive 0 ''15551234567'', Arrive 0 ''15551234567''] =
     Some \<lparr> store = Map.empty,
            requests = [Pending (AwaitRegistered ''15551234567''),
                        Pending (AwaitRegistered ''15551234567'')],
            calls = [IsRegisteredUser ''15551234567@c.us'', IsRegisteredUser ''15551234567@c.us''] \<rparr> \<and>
   run default_refusal 600 init [Arrive 0 ''15551234567'', Arrive 0 ''15551234567'',
                 Settle 1 0 (Registered (Resolved False)),
                 Settle 1 1 (Registered (Rejected (OtherError ''Evaluation failed'')))] =
     Some \<lparr> store = [cacheKey ''15551234567'' \<mapsto> (JObj [(''registered'', JBool False)], 1)],
            requests = [Done (live_reply (JObj [(''registered'', JBool False)])), Done error_reply],
            calls = [IsRegisteredUser ''15551234567@c.us'', IsRegisteredUser ''15551234567@c.us''] \<rparr>"
  by (simp add: init_def arrive_def digits_valid enter_def cache_get_def cache_set_def Let_def
      base_result_def phoneNumberId_def)

lemma well_stored_empty: "well_stored Map.empty"
  by (simp add: well_stored_def)

lemma well_stored_set:
  "well_stored c \<Longrightarrow> well_stored (cache_set c now k (JObj ((''registered'', JBool b) # fs)))"
  by (auto simp: well_stored_def cache_set_def)

lemma resume_well_stored:
  assumes "resume c now p x = Some (r, c', cs)" and "well_stored c"
  shows "well_stored c'"
proof (cases "(c, now, p, x)" rule: resume.cases)
  case (1 c0 now0 phone r0)
  with assms show ?thesis
    by (auto simp: Let_def base_result_def well_stored_set split: outcome.splits if_splits)
next
  case (2 c0 now0 phone r0)
  with assms show ?thesis
    by (auto split: outcome.splits)
next
  case (3 c0 now0 phone contact r0)
  with assms show ?thesis
    by (auto simp: Let_def profile_result_eq well_stored_set split: outcome.splits)
qed (use assms in auto)

lemma sys_step_well_stored:
  assumes "sys_step refuse ttl s e = Some s'" and "well_stored (store s)"
  shows "well_stored (store s')"
proof (cases e)
  case (Arrive now phone)
  with assms show ?thesis
    by (auto split: prod.splits)
next
  case (Settle now i x)
  with assms show ?thesis
    by (auto split: if_splits req.splits option.splits dest: resume_well_stored)
qed

lemma run_well_stored:
  "run refuse ttl s es = Some s' \<Longrightarrow> well_stored (store s) \<Longrightarrow> well_stored (store s')"
proof (induction es arbitrary: s)
  case Nil
  then show ?case by simp
next
  case (Cons e es)
  then show ?case
    by (auto split: option.splits dest: sys_step_well_stored)
qed

text \<open>
  Claim C10. In every state the process reaches from its start, whatever the arrivals
  and the answers of the client and however they interleave, a value stored in the cache is
  an object whose \<^verbatim>\<open>registered\<close> property is a boolean; so while the entry is unexpired the
  cache read of the handler is truthy and a lookup of the identifier is answered as a
  cache hit with that value, with no call made on the client.
\<close>

theorem stored_entries_are_hits:
  assumes "run refuse ttl init evs = Some s"
    and "store s (cacheKey phone) = Some (v, insertedAt)"
    and "now - insertedAt < ttl"
  shows "(\<exists>b fs. v = JObj ((''registered'', JBool b) # fs)) \<and>
         truthy (cache_get ttl (store s) now (cacheKey phone)) \<and>
         enter ttl (store s) now phone = (Done (hit_reply v), [])"
proof -
  have "well_stored (store init)"
    by (simp add: init_def well_stored_empty)
  with assms(1) have "well_stored (store s)"
    by (rule run_well_stored)
  with assms(2) obtain b fs where v: "v = JObj ((''registered'', JBool b) # fs)"
    unfolding well_stored_def by blast
  from assms(2,3) have "cache_get ttl (store s) now (cacheKey phone) = v"
    by (simp add: cache_get_def)
  with v show ?thesis
    by (simp add: enter_def)
qed

theorem stored_entries_are_hits_witness:
  "run default_refusal 600 init [Arrive 0 ''15551234567'', Settle 1 0 (Registered (Resolved False))] =
     Some \<lparr> store = [cacheKey ''15551234567'' \<mapsto> (JObj [(''registered'', JBool False)], 1)],
            requests = [Done (live_reply (JObj [(''registered'', JBool False)]))],
            calls = [IsRegisteredUser ''15551234567@c.us''] \<rparr> \<and>
   (\<exists>b fs. JObj [(''registered'', JBool False)] = JObj ((''registered'', JBool b) # fs)) \<and>
   truthy (cache_get 600 [cacheKey ''15551234567'' \<mapsto> (JObj [(''registered'', JBool False)], 1)] 5
      (cacheKey ''15551234567'')) \<and>
   enter 600 [cacheKey ''15551234567'' \<mapsto> (JObj [(''registered'', JBool False)], 1)] 5 ''15551234567'' =
     (Done (hit_reply (JObj [(''registered'', JBool False)])), [])"
proof -
  let ?v = "JObj [(''registered'', JBool False)]"
  let ?c = "[cacheKey ''15551234567'' \<mapsto> (?v, 1::int)]"
  let ?s = "\<lparr> store = ?c, requests = [Done (live_reply ?v)],
             calls = [IsRegisteredUser ''15551234567@c.us''] \<rparr>"
  have r: "run default_refusal 600 init [Arrive 0 ''15551234567'', Settle 1 0 (Registered (Resolved False))] = Some ?s"
    by (simp add: init_def arrive_def digits_valid enter_def cache_get_def cache_set_def
        Let_def base_result_def phoneNumberId_def)
  have e: "store ?s (cacheKey ''15551234567'') = Some (?v, 1)" by simp
  have w: "(5::int) - 1 < 600" by simp
  from stored_entries_are_hits [OF r e w]
  have "(\<exists>b fs. ?v = JObj ((''registered'', JBool b) # fs)) \<and>
      truthy (cache_get 600 ?c 5 (cacheKey ''15551234567'')) \<and>
      enter 600 ?c 5 ''15551234567'' = (Done (hit_reply ?v), [])"
    by (simp only: sys.simps)
  with r show ?thesis by (rule conjI)
qed

text \<open>
  The two readings of the handler agree: the reply, the cache and the calls of a request
  run on its own are those of the process in which the request arrives and its awaited
  calls settle one after the other.
\<close>

lemma route_check_as_run:
  assumes "route_check refuse ttl client c now later phone = (r, c', cs)"
  shows "\<exists>evs. run refuse ttl \<lparr> store = c, requests = [], calls = [] \<rparr> (Arrive now phone # evs) =
           Some \<lparr> store = c', requests = [Done r], calls = cs \<rparr>"
proof (cases "matches_pattern phone \<and> \<not> truthy (cache_get ttl c now (cacheKey phone))")
  case False
  with assms have "run refuse ttl \<lparr> store = c, requests = [], calls = [] \<rparr> (Arrive now phone # []) =
           Some \<lparr> store = c', requests = [Done r], calls = cs \<rparr>"
    by (auto simp: route_check_def lookup_def arrive_def enter_def)
  then show ?thesis by blast
next
  case miss: True
  let ?id = "phoneNumberId phone"
  show ?thesis
  proof (cases "isRegisteredUser client ?id")
    case (Rejected e)
    with assms miss have "run refuse ttl \<lparr> store = c, requests = [], calls = [] \<rparr>
          (Arrive now phone # [Settle later 0 (Registered (Rejected e))]) =
           Some \<lparr> store = c', requests = [Done r], calls = cs \<rparr>"
      by (auto simp: route_check_def lookup_def arrive_def enter_def)
    then show ?thesis by blast
  next
    case reg: (Resolved b)
    show ?thesis
    proof (cases b)
      case False
      with assms miss reg have "run refuse ttl \<lparr> store = c, requests = [], calls = [] \<rparr>
          (Arrive now phone # [Settle later 0 (Registered (Resolved False))]) =
           Some \<lparr> store = c', requests = [Done r], calls = cs \<rparr>"
        by (auto simp: route_check_def lookup_def arrive_def enter_def Let_def)
      then show ?thesis by blast
    next
      case True
      show ?thesis
      proof (cases "getContactById client ?id")
        case (Rejected e)
        with assms miss reg True have "run refuse ttl \<lparr> store = c, requests = [], calls = [] \<rparr>
          (Arrive now phone # [Settle later 0 (Registered (Resolved True)),
             Settle later 0 (Contact (Rejected e))]) =
           Some \<lparr> store = c', requests = [Done r], calls = cs \<rparr>"
          by (auto simp: route_check_def lookup_def arrive_def enter_def)
        then show ?thesis by blast
      next
        case con: (Resolved ct)
        show ?thesis
        proof (cases "getProfilePicUrl client ct")
          case (Rejected e)
          with assms miss reg True con have "run refuse ttl \<lparr> store = c, requests = [], calls = [] \<rparr>
            (Arrive now phone # [Settle later 0 (Registered (Resolved True)),
               Settle later 0 (Contact (Resolved ct)), Settle later 0 (ProfilePicUrl (Rejected e))]) =
             Some \<lparr> store = c', requests = [Done r], calls = cs \<rparr>"
            by (auto simp: route_check_def lookup_def arrive_def enter_def)
          then show ?thesis by blast
        next
          case (Resolved u)
          with assms miss reg True con have "run refuse ttl \<lparr> store = c, requests = [], calls = [] \<rparr>
            (Arrive now phone # [Settle later 0 (Registered (Resolved True)),
               Settle later 0 (Contact (Resolved ct)), Settle later 0 (ProfilePicUrl (Resolved u))]) =
             Some \<lparr> store = c', requests = [Done r], calls = cs \<rparr>"
            by (auto simp: route_check_def lookup_def arrive_def enter_def Let_def)
          then show ?thesis by blast
        qed
      qed
    qed
  qed
qed

section \<open>Shutdown\<close>

text \<open>
  The exit code of the callers whose awaited calls resolve: 0 for both signals, 1 for a
  failure of the startup.
\<close>

lemma signal_exit_code:
  "ending (on_signal cl sv sig (Resolved ()) (Resolved ()) c) = Exit 0"
  by (cases sig) (simp_all add: on_signal_def gracefulShutdown_def Let_def)

lemma startup_failure_exit_code:
  "ending (on_startup_failure cl sv (Resolved ()) (Resolved ()) c) = Exit 1"
  by (simp add: on_startup_failure_def gracefulShutdown_def Let_def)

text \<open>
  Claim C3, at the input where the code departs from it. The shutdown that the
  \<^verbatim>\<open>auth_failure\<close> handler starts ends the process with exit code 0: the reason it passes,
  \<^verbatim>\<open>Authentication Failure\<close>, is not the one reason the exit code is tested against.
\<close>

theorem auth_failure_exit_code:
  "ending (on_auth_failure cl close_res (Resolved ()) c) = Exit 0"
  by (simp add: on_auth_failure_def gracefulShutdown_def Let_def)

text \<open>
  Claim C8. For every shutdown whose client was never created or has no browser yet,
  whatever the reason of the shutdown, the client is not destroyed; and unless the close of
  a listening server rejects, the cache is flushed and the process exits, with code 1 for a
  startup failure and 0 otherwise.
\<close>

theorem shutdown_without_browser:
  assumes "client = None \<or> (\<exists>cl. client = Some cl \<and> \<not> pupBrowser cl)"
  shows "ClientDestroy \<notin> set (effects (gracefulShutdown client server signal close_res destroy_res c)) \<and>
    ((server = None \<or> (\<exists>sv. server = Some sv \<and> (\<not> listening sv \<or> close_res = Resolved ()))) \<longrightarrow>
       CacheFlushAll \<in> set (effects (gracefulShutdown client server signal close_res destroy_res c)) \<and>
       cache_left (gracefulShutdown client server signal close_res destroy_res c) = Map.empty \<and>
       ending (gracefulShutdown client server signal close_res destroy_res c) =
         Exit (if signal = ''Startup Failure'' then 1 else 0))"
  using assms
  by (auto simp: gracefulShutdown_def Let_def flushAll_def split: option.splits)

theorem shutdown_without_browser_witness:
  "gracefulShutdown (Some \<lparr> pupBrowser = False \<rparr>) (Some \<lparr> listening = False \<rparr>) ''SIGINT''
      (Rejected NotReadyError) (Rejected NotReadyError) [cacheKey ''15551234567'' \<mapsto> (JObj (base_result False), 0)] =
     \<lparr> effects = [CacheFlushAll], cache_left = Map.empty, ending = Exit 0 \<rparr> \<and>
   gracefulShutdown None None ''Startup Failure''
      (Rejected NotReadyError) (Rejected NotReadyError) [cacheKey ''15551234567'' \<mapsto> (JObj (base_result False), 0)] =
     \<lparr> effects = [CacheFlushAll], cache_left = Map.empty, ending = Exit 1 \<rparr>"
  using shutdown_without_browser
      [of "Some \<lparr> pupBrowser = False \<rparr>" "Some \<lparr> listening = False \<rparr>" "''SIGINT''"
        "Rejected NotReadyError" "Rejected NotReadyError" "[cacheKey ''15551234567'' \<mapsto> (JObj (base_result False), 0)]"]
    shutdown_without_browser
      [of None None "''Startup Failure''"
        "Rejected NotReadyError" "Rejected NotReadyError" "[cacheKey ''15551234567'' \<mapsto> (JObj (base_result False), 0)]"]
  by (simp add: gracefulShutdown_def Let_def flushAll_def)

end
